theory Spec2Isabelle
  imports Complex_Main "HOL-Library.Word"
begin

section \<open>elm327diag: the PID catalog and the acquisition sweep\<close>

text \<open>
  A shallow embedding of \<^verbatim>\<open>elm327diag.c\<close>: the \<^verbatim>\<open>struct obdpid\<close> table, the two
  decoding functions, \<^verbatim>\<open>setupcommands\<close>, \<^verbatim>\<open>query_elm\<close>, the macro
  \<^verbatim>\<open>QUERY_OR_ERR\<close> and the part of \<^verbatim>\<open>main\<close> that builds the table and sweeps it.

  Numbers. The program computes in C \<^verbatim>\<open>double\<close>. Every value it computes is obtained from
  two bytes \<open>a\<close>, \<open>b\<close> as \<open>a\<close> or as \<open>(a * 256 + b) / 4\<close>: a multiple of \<open>1/4\<close> below \<open>2 ^ 14\<close>,
  which binary64 holds without rounding (lemma \<open>rpmcalc_quarters\<close> below). On these values
  the arithmetic of \<^verbatim>\<open>double\<close> is the arithmetic of the rationals, so \<open>double\<close> is
  modelled as \<^typ>\<open>rat\<close>.
\<close>

subsection \<open>Data model\<close>

type_synonym double = rat

datatype DataType = INTEGER | DOUBLE

datatype Units = PERCENT | RPM | CELSIUS | PASCALS | KILOMETERSPERHOUR

text \<open>
  \<^verbatim>\<open>struct obdpid\<close>. The fields \<^verbatim>\<open>min\<close>, \<^verbatim>\<open>max\<close> and \<^verbatim>\<open>datatype\<close> are renamed
  (\<open>min_val\<close>, \<open>max_val\<close>, \<open>data_type\<close>) because the source's names are taken in HOL.
  \<^verbatim>\<open>size_t bytes\<close> only ever holds 0, 1 or 2 and is only compared with 0: a \<^typ>\<open>nat\<close>.
  The function pointer \<^verbatim>\<open>calculate\<close> is a function value.
\<close>

record obdpid =
  command :: int
  min_val :: double
  max_val :: double
  bytes :: nat
  data_type :: DataType
  units :: Units
  calculate :: "double \<Rightarrow> double \<Rightarrow> double"
  commandname :: string

text \<open>
  The array \<^verbatim>\<open>struct obdpid o[25]\<close> is a function from the slot index; the program only
  reads and writes the slots \<open>0 .. 24\<close>.
\<close>

type_synonym pidtable = "nat \<Rightarrow> obdpid"

subsection \<open>The decoding functions\<close>

definition rpmcalc :: "double \<Rightarrow> double \<Rightarrow> double" where
  "rpmcalc a b = ((a * 256) + b) / 4"

definition stdcalc :: "double \<Rightarrow> double \<Rightarrow> double" where
  "stdcalc a b = a"

subsection \<open>Building the table\<close>

definition setupcommands :: "pidtable \<Rightarrow> pidtable" where
  "setupcommands o0 =
    (let
      o1 = o0(3 := (o0 3)\<lparr>data_type := INTEGER, command := 0x03,
                 commandname := ''Fuel System Status'', bytes := 1\<rparr>);
      o2 = o1(4 := (o1 4)\<lparr>data_type := INTEGER, command := 0x04,
                 commandname := ''Calculated Engine Load'',
                 min_val := 0, max_val := 100, units := PERCENT, bytes := 1\<rparr>);
      o3 = o2(5 := (o2 5)\<lparr>data_type := INTEGER, command := 0x05,
                 commandname := ''Engine Coolant Temperature'',
                 min_val := - 40, max_val := 215, units := CELSIUS, bytes := 1\<rparr>);
      o4 = o3(10 := (o3 10)\<lparr>data_type := INTEGER, command := 0x0A,
                 commandname := ''Fuel Gauge Pressure'',
                 min_val := 0, max_val := 765, units := PASCALS, bytes := 1\<rparr>);
      o5 = o4(11 := (o4 11)\<lparr>data_type := INTEGER, command := 0x0B,
                 commandname := ''Intake Manifold Absolute Pressure'',
                 min_val := 0, max_val := 255, units := PASCALS, bytes := 1\<rparr>);
      o6 = o5(12 := (o5 12)\<lparr>data_type := DOUBLE, command := 0x0C,
                 commandname := ''Engine Speed'',
                 min_val := 0, max_val := 16383.75, units := RPM, bytes := 2,
                 calculate := rpmcalc\<rparr>);
      o7 = o6(13 := (o6 13)\<lparr>data_type := INTEGER, command := 0x0D,
                 commandname := ''Vehicle Speed'',
                 min_val := 0, max_val := 255, units := KILOMETERSPERHOUR, bytes := 1\<rparr>)
    in o7)"

text \<open>
  The loop of \<^verbatim>\<open>main\<close> that gives every slot its defaults before \<^verbatim>\<open>setupcommands\<close>:
  \<^verbatim>\<open>for (int i = 0; i < 25; i++) { o[i].bytes = 0; o[i].calculate = stdcalc; }\<close>
\<close>

function init_loop :: "nat \<Rightarrow> pidtable \<Rightarrow> pidtable" where
  "init_loop i tbl =
    (if i < 25 then init_loop (i + 1) (tbl(i := (tbl i)\<lparr>bytes := 0, calculate := stdcalc\<rparr>))
     else tbl)"
  by pat_completeness auto
termination
  by (relation "measure (\<lambda>(i, tbl). 25 - i)") auto

declare init_loop.simps [simp del]

text \<open>
  The table as \<^verbatim>\<open>main\<close> has it when the sweep starts. The array is a local variable
  without initialiser, so its first contents \<open>junk\<close> are whatever the stack holds.
\<close>

definition build :: "pidtable \<Rightarrow> pidtable" where
  "build junk = setupcommands (init_loop 0 junk)"

text \<open>The cast \<^verbatim>\<open>(double)\<close> of a message byte.\<close>

definition byte_to_double :: "8 word \<Rightarrow> double" where
  "byte_to_double b = of_nat (unat b)"

subsection \<open>The transport and the output file\<close>

text \<open>
  Modelled from the spec: \<^verbatim>\<open>elm327_msg_t\<close> is declared in \<^verbatim>\<open>elm327.h\<close>, which is not
  among the sources. A message is taken as an array of unsigned bytes indexed from 0 in
  which the offsets 2 and 3 exist (spec, section 6: "byte offsets 2 and 3 hold the
  decodeable payload"; section 4.2: the byte domain is \<open>[0,255]\<close>).
\<close>

type_synonym elm327_msg_t = "nat \<Rightarrow> 8 word"

text \<open>
  The library behind \<^verbatim>\<open>elm327.h\<close> is the environment of the program. What it does to one
  call of \<^verbatim>\<open>query_elm\<close> is one of three things: \<^verbatim>\<open>elm327_send_msg\<close> returns \<open>-1\<close>;
  it succeeds and \<^verbatim>\<open>elm327_recv_msgs\<close> returns \<^verbatim>\<open>NULL\<close>; or both succeed and the
  first message received is \<open>m\<close>. A transport gives this outcome for the \<open>n\<close>-th call
  (counted from 0), whatever the request was.
\<close>

datatype response = SendFail | RecvFail | Msg elm327_msg_t

type_synonym transport = "nat \<Rightarrow> response"

text \<open>
  What the program does to the outside, in the order it does it. \<open>Fprintf\<close> is a write
  to the stream \<^verbatim>\<open>out\<close>, \<open>Stdout\<close> a write to the standard output. \<open>Fclose\<close> is the
  call \<^verbatim>\<open>fclose(out)\<close> of the program; \<open>Exit_close\<close> is the closing of \<^verbatim>\<open>out\<close> by the C
  runtime when the process ends with the stream still open.
  \<^verbatim>\<open>fopen\<close> is taken to succeed (the source does not test its result).
\<close>

datatype event =
    Stdout string
  | Elm327_init
  | Set_timeout int
  | Fopen
  | Create_msg int
  | Send_msg int
  | Recv_msgs
  | Flush
  | Destroy_recv_msgs
  | Fprintf string
  | Fclose
  | Shutdown
  | Exit_close

record world =
  calls :: nat
  trace :: "event list"

definition emit :: "event list \<Rightarrow> world \<Rightarrow> world" where
  "emit es w = w\<lparr>trace := trace w @ es\<rparr>"

subsection \<open>The conversion \<^verbatim>\<open>%f\<close> of \<^verbatim>\<open>fprintf\<close>\<close>

text \<open>
  \<^verbatim>\<open>%f\<close> prints the exact value of its argument rounded to six decimals, ties to even,
  with a minus sign for a negative argument.
\<close>

definition round_half_even :: "rat \<Rightarrow> int" where
  "round_half_even x =
    (let f = \<lfloor>x\<rfloor>; d = x - of_int f
     in if d < 1 / 2 then f else if 1 / 2 < d then f + 1 else if even f then f else f + 1)"

definition digit_char :: "nat \<Rightarrow> char" where
  "digit_char d = ''0123456789'' ! d"

fun dec_nat :: "nat \<Rightarrow> string" where
  "dec_nat n = (if n < 10 then [digit_char n] else dec_nat (n div 10) @ [digit_char (n mod 10)])"

declare dec_nat.simps [simp del]

definition fmt_f :: "double \<Rightarrow> string" where
  "fmt_f x =
    (let n = nat (round_half_even (\<bar>x\<bar> * 1000000));
         frac = dec_nat (n mod 1000000)
     in (if x < 0 then ''-'' else []) @ dec_nat (n div 1000000) @ ''.''
        @ replicate (6 - length frac) (CHR ''0'') @ frac)"

text \<open>\<^verbatim>\<open>fprintf(out, "%s, %f\n", name, r)\<close> writes this string.\<close>

definition fprintf_line :: "string \<Rightarrow> double \<Rightarrow> string" where
  "fprintf_line name r = name @ '', '' @ fmt_f r @ [CHR 0x0A]"

subsection \<open>One query\<close>

text \<open>
  \<^verbatim>\<open>query_elm\<close> returns 1 when the send fails, 2 when nothing is received, and 0 with
  \<^verbatim>\<open>*msgs\<close> set otherwise: \<open>Inl\<close> is the non-zero code, \<open>Inr\<close> the message when the
  code is 0.
\<close>

definition query_elm :: "transport \<Rightarrow> int \<Rightarrow> world \<Rightarrow> (int + elm327_msg_t) \<times> world" where
  "query_elm tr pid w =
    (let w1 = emit [Create_msg pid] (w\<lparr>calls := calls w + 1\<rparr>)
     in case tr (calls w) of
          SendFail \<Rightarrow> (Inl 1, emit [Send_msg pid] w1)
        | RecvFail \<Rightarrow> (Inl 2, emit [Send_msg pid, Recv_msgs] w1)
        | Msg m \<Rightarrow> (Inr m, emit [Send_msg pid, Recv_msgs, Flush] w1))"

text \<open>
  The macro \<^verbatim>\<open>QUERY_OR_ERR\<close>: on a non-zero code it destroys the messages and executes
  \<^verbatim>\<open>return _err\<close> in the function that uses it, which is \<^verbatim>\<open>main\<close>. \<open>Inl\<close> is that return.
  The pointer handed to \<^verbatim>\<open>elm327_destroy_recv_msgs\<close> is \<^verbatim>\<open>NULL\<close> then; the call is taken
  to return, as \<^verbatim>\<open>free\<close> does.
\<close>

definition QUERY_OR_ERR :: "transport \<Rightarrow> int \<Rightarrow> world \<Rightarrow> (int + elm327_msg_t) \<times> world" where
  "QUERY_OR_ERR tr pid w =
    (case query_elm tr pid w of
       (Inl err, w1) \<Rightarrow> (Inl err, emit [Destroy_recv_msgs] w1)
     | (Inr m, w1) \<Rightarrow> (Inr m, w1))"

subsection \<open>The sweep\<close>

text \<open>
  The body of the loop over \<open>j\<close>. The result \<open>Some err\<close> says that \<^verbatim>\<open>main\<close> has returned
  \<open>err\<close> from inside the body, \<open>None\<close> that the loop goes on.
\<close>

definition loop_body :: "transport \<Rightarrow> pidtable \<Rightarrow> nat \<Rightarrow> world \<Rightarrow> int option \<times> world" where
  "loop_body tr tbl j w =
    (if 0 < bytes (tbl j) then
       (case QUERY_OR_ERR tr (command (tbl j)) w of
          (Inl err, w1) \<Rightarrow> (Some err, w1)
        | (Inr recv_msg, w1) \<Rightarrow>
            (let b1 = byte_to_double (recv_msg 2);
                 b2 = byte_to_double (recv_msg 3);
                 r = calculate (tbl j) b1 b2;
                 w2 = emit [Destroy_recv_msgs] w1
             in (None, emit [Fprintf (fprintf_line (commandname (tbl j)) r)] w2)))
     else (None, w))"

function main_loop :: "transport \<Rightarrow> pidtable \<Rightarrow> nat \<Rightarrow> world \<Rightarrow> int option \<times> world" where
  "main_loop tr tbl j w =
    (if j < 25 then
       (case loop_body tr tbl j w of
          (Some err, w1) \<Rightarrow> (Some err, w1)
        | (None, w1) \<Rightarrow> main_loop tr tbl (j + 1) w1)
     else (None, w))"
  by pat_completeness auto
termination
  by (relation "measure (\<lambda>(tr, tbl, j, w). 25 - j)") auto

declare main_loop.simps [simp del]

text \<open>
  \<^verbatim>\<open>main\<close> from the call of \<^verbatim>\<open>elm327_init\<close> on, for the table \<open>tbl\<close> that
  \<^verbatim>\<open>setupcommands\<close> has left: the result is the value \<^verbatim>\<open>main\<close> returns (0 when it runs
  to its end) and the world it leaves. \<^verbatim>\<open>parse_args\<close>, which comes before, either ends the
  process or sets the two file names.
\<close>

definition main_on :: "transport \<Rightarrow> pidtable \<Rightarrow> int \<times> world" where
  "main_on tr tbl =
    (let w0 = \<lparr>calls = 0,
               trace = [Stdout (''initializing connection'' @ [CHR 0x0A]), Elm327_init,
                        Set_timeout 3000,
                        Stdout (''initializing vehicle info pids'' @ [CHR 0x0A])]\<rparr>;
         w1 = emit [Stdout (''gathering data...'' @ [CHR 0x0A]), Fopen] w0
     in case main_loop tr tbl 0 w1 of
          (Some err, w2) \<Rightarrow> (err, w2)
        | (None, w2) \<Rightarrow> (0, emit [Stdout (''done'' @ [CHR 0x0A]), Fclose, Shutdown] w2))"

definition main :: "transport \<Rightarrow> pidtable \<Rightarrow> int \<times> world" where
  "main tr junk = main_on tr (build junk)"

subsection \<open>What a run leaves behind\<close>

text \<open>
  The strings written to \<^verbatim>\<open>out\<close>, in order. They are the contents of the output file
  when the process has ended: a return from \<^verbatim>\<open>main\<close> flushes every open stream.
\<close>

fun fprintf_of :: "event \<Rightarrow> string list" where
  "fprintf_of (Fprintf s) = [s]"
| "fprintf_of _ = []"

definition report_lines :: "int \<times> world \<Rightarrow> string list" where
  "report_lines r = concat (map fprintf_of (trace (snd r)))"

definition file_contents :: "int \<times> world \<Rightarrow> string" where
  "file_contents r = concat (report_lines r)"

text \<open>The PIDs of the requests handed to \<^verbatim>\<open>elm327_send_msg\<close>, in order.\<close>

fun send_of :: "event \<Rightarrow> int list" where
  "send_of (Send_msg pid) = [pid]"
| "send_of _ = []"

definition queried :: "int \<times> world \<Rightarrow> int list" where
  "queried r = concat (map send_of (trace (snd r)))"

definition exit_code :: "int \<times> world \<Rightarrow> int" where
  "exit_code r = fst r"

definition occurrences :: "event \<Rightarrow> int \<times> world \<Rightarrow> nat" where
  "occurrences e r = count_list (trace (snd r)) e"

subsection \<open>The end of the process\<close>

text \<open>
  A return from \<^verbatim>\<open>main\<close> is a call of \<^verbatim>\<open>exit\<close> with the value returned: the C runtime
  flushes and closes every stream that is still open, and only those. The stream \<^verbatim>\<open>out\<close>
  is open when it has been opened and \<^verbatim>\<open>fclose\<close> has not been called on it.
\<close>

definition out_open :: "event list \<Rightarrow> bool" where
  "out_open t = (count_list t Fclose < count_list t Fopen)"

definition c_exit :: "int \<times> world \<Rightarrow> int \<times> world" where
  "c_exit r = (if out_open (trace (snd r)) then (fst r, emit [Exit_close] (snd r)) else r)"


definition process :: "transport \<Rightarrow> pidtable \<Rightarrow> int \<times> world" where
  "process tr junk = c_exit (main tr junk)"






text \<open>The active slots from slot \<open>j\<close> on, in ascending order.\<close>

definition active_from :: "pidtable \<Rightarrow> nat \<Rightarrow> nat list" where
  "active_from tbl j = filter (\<lambda>i. 0 < bytes (tbl i)) [j..<25]"

definition active_slots :: "pidtable \<Rightarrow> nat list" where
  "active_slots tbl = active_from tbl 0"

text \<open>The events of one iteration of the loop that ends well, and of one that fails.\<close>

definition ok_events :: "obdpid \<Rightarrow> elm327_msg_t \<Rightarrow> event list" where
  "ok_events e m =
    [Create_msg (command e), Send_msg (command e), Recv_msgs, Flush, Destroy_recv_msgs,
     Fprintf (fprintf_line (commandname e)
                (calculate e (byte_to_double (m 2)) (byte_to_double (m 3))))]"

fun fail_events :: "obdpid \<Rightarrow> response \<Rightarrow> event list" where
  "fail_events e SendFail = [Create_msg (command e), Send_msg (command e), Destroy_recv_msgs]"
| "fail_events e RecvFail =
    [Create_msg (command e), Send_msg (command e), Recv_msgs, Destroy_recv_msgs]"
| "fail_events e (Msg m) = []"

fun fail_code :: "response \<Rightarrow> int" where
  "fail_code SendFail = 1"
| "fail_code RecvFail = 2"
| "fail_code (Msg m) = 0"

text \<open>The events of a row of iterations that end well: slot by slot, message by message.\<close>

definition slot_events :: "pidtable \<Rightarrow> nat list \<Rightarrow> elm327_msg_t list \<Rightarrow> event list" where
  "slot_events tbl ss ms = concat (map2 (\<lambda>s m. ok_events (tbl s) m) ss ms)"

text \<open>What \<^verbatim>\<open>main\<close> does before the loop, and after it when the loop runs to its end.\<close>

definition prologue :: "event list" where
  "prologue =
    [Stdout (''initializing connection'' @ [CHR 0x0A]), Elm327_init, Set_timeout 3000,
     Stdout (''initializing vehicle info pids'' @ [CHR 0x0A]),
     Stdout (''gathering data...'' @ [CHR 0x0A]), Fopen]"

definition epilogue :: "event list" where
  "epilogue = [Stdout (''done'' @ [CHR 0x0A]), Fclose, Shutdown]"

subsection \<open>Concrete inputs\<close>

text \<open>A stack that happens to hold zeroes where the table is declared.\<close>

definition zeroed :: pidtable where
  "zeroed = (\<lambda>i. \<lparr>command = 0, min_val = 0, max_val = 0, bytes = 0, data_type = INTEGER,
                   units = PERCENT, calculate = (\<lambda>a b. 0), commandname = []\<rparr>)"

text \<open>
  The table of the scenario of the specification (section 8): three active entries, coolant
  temperature, engine speed and vehicle speed, in the slots 0, 1 and 2; the other slots
  inactive.
\<close>

definition scenario_table :: pidtable where
  "scenario_table = zeroed
    (0 := \<lparr>command = 0x05, min_val = - 40, max_val = 215, bytes = 1, data_type = INTEGER,
           units = CELSIUS, calculate = stdcalc, commandname = ''Engine Coolant Temperature''\<rparr>,
     1 := \<lparr>command = 0x0C, min_val = 0, max_val = 16383.75, bytes = 2, data_type = DOUBLE,
           units = RPM, calculate = rpmcalc, commandname = ''Engine Speed''\<rparr>,
     2 := \<lparr>command = 0x0D, min_val = 0, max_val = 255, bytes = 1, data_type = INTEGER,
           units = KILOMETERSPERHOUR, calculate = stdcalc, commandname = ''Vehicle Speed''\<rparr>)"

text \<open>A message that echoes mode and PID and carries the payload bytes \<open>a\<close>, \<open>b\<close>.\<close>

definition reply :: "8 word \<Rightarrow> 8 word \<Rightarrow> 8 word \<Rightarrow> elm327_msg_t" where
  "reply pid a b = (\<lambda>i. 0)(0 := 0x41, 1 := pid, 2 := a, 3 := b)"

definition scenario_transport :: transport where
  "scenario_transport = (\<lambda>n. SendFail)
    (0 := Msg (reply 0x05 95 0), 1 := Msg (reply 0x0C 0x1A 0x2C), 2 := Msg (reply 0x0D 60 0))"

text \<open>The transport of the failure scenario: nothing is received for the second request.\<close>

definition failing_transport :: transport where
  "failing_transport = (\<lambda>n. SendFail)(0 := Msg (reply 0x05 95 0), 1 := RecvFail)"

text \<open>A device that is not there: every send fails.\<close>

definition dead_transport :: transport where
  "dead_transport = (\<lambda>n. SendFail)"

section \<open>Evaluation of the formatting functions\<close>

lemma replicate_eval: "replicate (numeral k) x = x # replicate (pred_numeral k) x"
  by (simp add: numeral_eq_Suc)

lemma dec_nat_digit: "n < 10 \<Longrightarrow> dec_nat n = [digit_char n]"
  by (subst dec_nat.simps) simp

lemma dec_nat_more: "10 \<le> n \<Longrightarrow> dec_nat n = dec_nat (n div 10) @ [digit_char (n mod 10)]"
  by (subst dec_nat.simps) simp

lemmas fmt_eval =
  fprintf_line_def fmt_f_def round_half_even_def dec_nat_digit dec_nat_more digit_char_def
  Let_def replicate_eval

section \<open>The table that \<^verbatim>\<open>main\<close> builds\<close>

lemma init_loop_gen:
  "init_loop i tbl =
    (\<lambda>k. if i \<le> k \<and> k < 25 then (tbl k)\<lparr>bytes := 0, calculate := stdcalc\<rparr> else tbl k)"
proof (induction i tbl rule: init_loop.induct)
  case (1 i tbl)
  show ?case
  proof (cases "i < 25")
    case True
    have "init_loop i tbl =
        init_loop (i + 1) (tbl(i := (tbl i)\<lparr>bytes := 0, calculate := stdcalc\<rparr>))"
      using True by (subst init_loop.simps) simp
    also have "\<dots> = (\<lambda>k. if i + 1 \<le> k \<and> k < 25
        then ((tbl(i := (tbl i)\<lparr>bytes := 0, calculate := stdcalc\<rparr>)) k)
               \<lparr>bytes := 0, calculate := stdcalc\<rparr>
        else (tbl(i := (tbl i)\<lparr>bytes := 0, calculate := stdcalc\<rparr>)) k)"
      by (rule "1.IH" [OF True])
    also have "\<dots> =
        (\<lambda>k. if i \<le> k \<and> k < 25 then (tbl k)\<lparr>bytes := 0, calculate := stdcalc\<rparr> else tbl k)"
      using True by (auto simp: fun_eq_iff)
    finally show ?thesis .
  next
    case False
    then show ?thesis by (subst init_loop.simps) (auto simp: fun_eq_iff)
  qed
qed

lemma init_loop_0:
  "init_loop 0 tbl =
    (\<lambda>k. if k < 25 then (tbl k)\<lparr>bytes := 0, calculate := stdcalc\<rparr> else tbl k)"
  by (simp add: init_loop_gen)

lemma bytes_build:
  "k < 25 \<Longrightarrow>
   bytes (build junk k) = (if k \<in> {3, 4, 5, 10, 11, 13} then 1 else if k = 12 then 2 else 0)"
  by (simp add: build_def setupcommands_def init_loop_0 Let_def)

lemma calculate_build:
  "k < 25 \<Longrightarrow> calculate (build junk k) = (if k = 12 then rpmcalc else stdcalc)"
  by (simp add: build_def setupcommands_def init_loop_0 Let_def)

lemma build_names:
  "commandname (build junk 3) = ''Fuel System Status''"
  "commandname (build junk 4) = ''Calculated Engine Load''"
  "commandname (build junk 5) = ''Engine Coolant Temperature''"
  "commandname (build junk 10) = ''Fuel Gauge Pressure''"
  "commandname (build junk 11) = ''Intake Manifold Absolute Pressure''"
  "commandname (build junk 13) = ''Vehicle Speed''"
  by (simp_all add: build_def setupcommands_def Let_def)

lemma build_12:
  "min_val (build junk 12) = 0" "max_val (build junk 12) = 16383.75"
  "commandname (build junk 12) = ''Engine Speed''" "bytes (build junk 12) = 2"
  by (simp_all add: build_def setupcommands_def Let_def)

lemma upt_25: "[0..<25] = [0,1,2,3,4,5,6,7,8,9,10,11,12,13,14,15,16,17,18,19,20,21,22,23,24]"
  by code_simp

lemma active_slots_build: "active_slots (build junk) = [3, 4, 5, 10, 11, 12, 13]"
  by (simp add: active_slots_def active_from_def upt_25 bytes_build)

section \<open>The loop, one iteration at a time\<close>

lemma loop_body_inactive:
  "\<not> 0 < bytes (tbl j) \<Longrightarrow> loop_body tr tbl j w = (None, w)"
  by (simp add: loop_body_def)

lemma loop_body_ok:
  "0 < bytes (tbl j) \<Longrightarrow> tr (calls w) = Msg m \<Longrightarrow>
   loop_body tr tbl j w =
     (None, w\<lparr>calls := calls w + 1, trace := trace w @ ok_events (tbl j) m\<rparr>)"
  by (simp add: loop_body_def QUERY_OR_ERR_def query_elm_def emit_def ok_events_def Let_def)

lemma loop_body_fail:
  "0 < bytes (tbl j) \<Longrightarrow> tr (calls w) = f \<Longrightarrow> f = SendFail \<or> f = RecvFail \<Longrightarrow>
   loop_body tr tbl j w =
     (Some (fail_code f), w\<lparr>calls := calls w + 1, trace := trace w @ fail_events (tbl j) f\<rparr>)"
  by (auto simp add: loop_body_def QUERY_OR_ERR_def query_elm_def emit_def Let_def)

lemma main_loop_end: "25 \<le> j \<Longrightarrow> main_loop tr tbl j w = (None, w)"
  by (subst main_loop.simps) simp

lemma main_loop_inactive:
  "j < 25 \<Longrightarrow> \<not> 0 < bytes (tbl j) \<Longrightarrow> main_loop tr tbl j w = main_loop tr tbl (Suc j) w"
  by (subst main_loop.simps) (simp add: loop_body_inactive)

lemma main_loop_ok:
  "j < 25 \<Longrightarrow> 0 < bytes (tbl j) \<Longrightarrow> tr (calls w) = Msg m \<Longrightarrow>
   main_loop tr tbl j w =
     main_loop tr tbl (Suc j) (w\<lparr>calls := calls w + 1, trace := trace w @ ok_events (tbl j) m\<rparr>)"
  by (subst main_loop.simps) (simp add: loop_body_ok)

lemma main_loop_fail:
  "j < 25 \<Longrightarrow> 0 < bytes (tbl j) \<Longrightarrow> tr (calls w) = f \<Longrightarrow> f = SendFail \<or> f = RecvFail \<Longrightarrow>
   main_loop tr tbl j w =
     (Some (fail_code f), w\<lparr>calls := calls w + 1, trace := trace w @ fail_events (tbl j) f\<rparr>)"
  by (subst main_loop.simps) (simp add: loop_body_fail)

lemma active_from_end: "25 \<le> j \<Longrightarrow> active_from tbl j = []"
  by (simp add: active_from_def)

lemma active_from_step:
  "j < 25 \<Longrightarrow> active_from tbl j =
     (if 0 < bytes (tbl j) then j # active_from tbl (Suc j) else active_from tbl (Suc j))"
  by (simp add: active_from_def upt_conv_Cons)

lemma active_from_sorted: "sorted_wrt (<) (active_from tbl j)"
  by (simp add: active_from_def sorted_wrt_filter)

section \<open>The loop as a whole\<close>

text \<open>
  When the transport answers the next queries with the messages \<open>ms\<close>, one for each active
  slot that is left, the loop runs to its end and leaves the events of these iterations.
\<close>

lemma main_loop_complete:
  assumes "j \<le> 25"
    and "length ms = length (active_from tbl j)"
    and "\<forall>i<length ms. tr (calls w + i) = Msg (ms ! i)"
  shows "main_loop tr tbl j w =
    (None, w\<lparr>calls := calls w + length ms,
             trace := trace w @ slot_events tbl (active_from tbl j) ms\<rparr>)"
  using assms
proof (induction j arbitrary: w ms rule: inc_induct)
  case base
  then show ?case
    by (simp add: main_loop_end active_from_end slot_events_def)
next
  case (step n)
  show ?case
  proof (cases "0 < bytes (tbl n)")
    case False
    with step.hyps have af: "active_from tbl n = active_from tbl (Suc n)"
      by (simp add: active_from_step)
    show ?thesis
      using step.IH [of ms w] step.prems step.hyps False
      by (simp add: af main_loop_inactive)
  next
    case True
    with step.hyps have af: "active_from tbl n = n # active_from tbl (Suc n)"
      by (simp add: active_from_step)
    with step.prems obtain m ms' where ms: "ms = m # ms'"
      by (cases ms) auto
    from step.prems(2) ms have hd: "tr (calls w) = Msg m"
      by fastforce
    let ?w = "w\<lparr>calls := calls w + 1, trace := trace w @ ok_events (tbl n) m\<rparr>"
    have len: "length ms' = length (active_from tbl (Suc n))"
      using step.prems(1) af ms by simp
    have rest: "\<forall>i<length ms'. tr (calls ?w + i) = Msg (ms' ! i)"
    proof (intro allI impI)
      fix i assume "i < length ms'"
      then have "tr (calls w + Suc i) = Msg (ms ! Suc i)"
        using step.prems(2) ms by auto
      then show "tr (calls ?w + i) = Msg (ms' ! i)"
        using ms by simp
    qed
    have "main_loop tr tbl n w = main_loop tr tbl (Suc n) ?w"
      using step.hyps True hd by (simp add: main_loop_ok)
    also have "\<dots> = (None, ?w\<lparr>calls := calls ?w + length ms',
             trace := trace ?w @ slot_events tbl (active_from tbl (Suc n)) ms'\<rparr>)"
      by (rule step.IH [OF len rest])
    finally show ?thesis
      by (simp add: af ms slot_events_def)
  qed
qed

text \<open>
  When it answers fewer queries than there are active slots left and fails on the next one,
  \<^verbatim>\<open>main\<close> returns from inside the loop.
\<close>

lemma main_loop_abort:
  assumes "j \<le> 25"
    and "length ms < length (active_from tbl j)"
    and "\<forall>i<length ms. tr (calls w + i) = Msg (ms ! i)"
    and "tr (calls w + length ms) = f"
    and "f = SendFail \<or> f = RecvFail"
  shows "main_loop tr tbl j w =
    (Some (fail_code f),
     w\<lparr>calls := calls w + length ms + 1,
       trace := trace w @ slot_events tbl (active_from tbl j) ms
                @ fail_events (tbl (active_from tbl j ! length ms)) f\<rparr>)"
  using assms(1-4)
proof (induction j arbitrary: w ms rule: inc_induct)
  case base
  then show ?case
    by (simp add: active_from_end)
next
  case (step n)
  show ?case
  proof (cases "0 < bytes (tbl n)")
    case False
    with step.hyps have af: "active_from tbl n = active_from tbl (Suc n)"
      by (simp add: active_from_step)
    show ?thesis
      using step.IH [of ms w] step.prems step.hyps False
      by (simp add: af main_loop_inactive)
  next
    case True
    with step.hyps have af: "active_from tbl n = n # active_from tbl (Suc n)"
      by (simp add: active_from_step)
    show ?thesis
    proof (cases ms)
      case Nil
      then show ?thesis
        using step.hyps True step.prems(3) assms(5)
        by (simp add: af main_loop_fail slot_events_def)
    next
      case (Cons m ms')
      from step.prems(2) Cons have hd: "tr (calls w) = Msg m"
        by fastforce
      let ?w = "w\<lparr>calls := calls w + 1, trace := trace w @ ok_events (tbl n) m\<rparr>"
      have len: "length ms' < length (active_from tbl (Suc n))"
        using step.prems(1) af Cons by simp
      have rest: "\<forall>i<length ms'. tr (calls ?w + i) = Msg (ms' ! i)"
      proof (intro allI impI)
        fix i assume "i < length ms'"
        then have "tr (calls w + Suc i) = Msg (ms ! Suc i)"
          using step.prems(2) Cons by auto
        then show "tr (calls ?w + i) = Msg (ms' ! i)"
          using Cons by simp
      qed
      have nxt: "tr (calls ?w + length ms') = f"
        using step.prems(3) Cons by simp
      have "main_loop tr tbl n w = main_loop tr tbl (Suc n) ?w"
        using step.hyps True hd by (simp add: main_loop_ok)
      also have "\<dots> = (Some (fail_code f),
         ?w\<lparr>calls := calls ?w + length ms' + 1,
            trace := trace ?w @ slot_events tbl (active_from tbl (Suc n)) ms'
                @ fail_events (tbl (active_from tbl (Suc n) ! length ms')) f\<rparr>)"
        by (rule step.IH [OF len rest nxt])
      finally show ?thesis
        by (simp add: af Cons slot_events_def)
    qed
  qed
qed

section \<open>What the events of the iterations hold\<close>

lemma report_slot_events:
  "length ms \<le> length ss \<Longrightarrow>
   concat (map fprintf_of (slot_events tbl ss ms)) =
     map2 (\<lambda>s m. fprintf_line (commandname (tbl s))
        (calculate (tbl s) (byte_to_double (m 2)) (byte_to_double (m 3)))) ss ms"
  by (induction ss ms rule: list_induct2') (simp_all add: slot_events_def ok_events_def)

lemma sends_slot_events:
  "concat (map send_of (slot_events tbl ss ms)) =
     map (\<lambda>s. command (tbl s)) (take (length ms) ss)"
  by (induction ss ms rule: list_induct2') (simp_all add: slot_events_def ok_events_def)

lemma count_slot_events:
  "e \<in> {Fopen, Fclose, Shutdown} \<Longrightarrow> count_list (slot_events tbl ss ms) e = 0"
  by (induction ss ms rule: list_induct2') (auto simp add: slot_events_def ok_events_def)

lemma fprintf_of_prologue: "concat (map fprintf_of prologue) = []"
  by (simp add: prologue_def)

lemma fprintf_of_epilogue: "concat (map fprintf_of epilogue) = []"
  by (simp add: epilogue_def)

lemma fprintf_of_fail: "concat (map fprintf_of (fail_events e f)) = []"
  by (cases f) simp_all

lemma send_of_prologue: "concat (map send_of prologue) = []"
  by (simp add: prologue_def)

lemma send_of_epilogue: "concat (map send_of epilogue) = []"
  by (simp add: epilogue_def)

lemma send_of_fail: "f = SendFail \<or> f = RecvFail \<Longrightarrow> concat (map send_of (fail_events e f)) = [command e]"
  by (cases f) simp_all

lemma count_prologue:
  "count_list prologue Fopen = 1" "count_list prologue Fclose = 0"
  "count_list prologue Shutdown = 0"
  by (simp_all add: prologue_def)

lemma count_epilogue: "count_list epilogue Fopen = 0" "count_list epilogue Fclose = 1"
  by (simp_all add: epilogue_def)

lemma count_fail: "e \<in> {Fopen, Fclose, Shutdown} \<Longrightarrow> count_list (fail_events p f) e = 0"
  by (cases f) auto

lemma zip_take_length: "zip xs ys = zip (take (length ys) xs) ys"
  by (induction xs ys rule: list_induct2') simp_all

section \<open>Whole runs\<close>

lemma main_on_complete:
  assumes "length ms = length (active_slots tbl)"
    and "\<forall>i<length ms. tr i = Msg (ms ! i)"
  shows "main_on tr tbl =
    (0, \<lparr>calls = length ms,
         trace = prologue @ slot_events tbl (active_slots tbl) ms @ epilogue\<rparr>)"
proof -
  let ?w = "\<lparr>calls = 0, trace = prologue\<rparr>"
  have "main_loop tr tbl 0 ?w =
      (None, ?w\<lparr>calls := calls ?w + length ms,
                trace := trace ?w @ slot_events tbl (active_from tbl 0) ms\<rparr>)"
    using assms by (intro main_loop_complete) (simp_all add: active_slots_def)
  then show ?thesis
    by (simp add: main_on_def emit_def prologue_def epilogue_def active_slots_def)
qed

lemma main_on_abort:
  assumes "length ms < length (active_slots tbl)"
    and "\<forall>i<length ms. tr i = Msg (ms ! i)"
    and "tr (length ms) = f"
    and "f = SendFail \<or> f = RecvFail"
  shows "main_on tr tbl =
    (fail_code f,
     \<lparr>calls = length ms + 1,
      trace = prologue @ slot_events tbl (active_slots tbl) ms
              @ fail_events (tbl (active_slots tbl ! length ms)) f\<rparr>)"
proof -
  let ?w = "\<lparr>calls = 0, trace = prologue\<rparr>"
  have "main_loop tr tbl 0 ?w =
      (Some (fail_code f),
       ?w\<lparr>calls := calls ?w + length ms + 1,
          trace := trace ?w @ slot_events tbl (active_from tbl 0) ms
                   @ fail_events (tbl (active_from tbl 0 ! length ms)) f\<rparr>)"
    using assms by (intro main_loop_abort) (simp_all add: active_slots_def)
  then show ?thesis
    by (simp add: main_on_def emit_def prologue_def active_slots_def)
qed

text \<open>
  Every transport either answers all the queries of the sweep or fails on one of them after
  answering those before it.
\<close>

lemma msg_prefix:
  "(\<exists>ms. length ms = n \<and> (\<forall>i<length ms. tr i = Msg (ms ! i)))
   \<or> (\<exists>ms. length ms < n \<and> (\<forall>i<length ms. tr i = Msg (ms ! i))
          \<and> (tr (length ms) = SendFail \<or> tr (length ms) = RecvFail))"
proof (induction n)
  case 0
  show ?case by simp
next
  case (Suc n)
  from Suc.IH consider
    (full) ms where "length ms = n" "\<forall>i<length ms. tr i = Msg (ms ! i)"
  | (short) ms where "length ms < n" "\<forall>i<length ms. tr i = Msg (ms ! i)"
      "tr (length ms) = SendFail \<or> tr (length ms) = RecvFail"
    by blast
  then show ?case
  proof cases
    case full
    show ?thesis
    proof (cases "tr n")
      case (Msg m)
      have "length (ms @ [m]) = Suc n"
        using full(1) by simp
      moreover have "\<forall>i<length (ms @ [m]). tr i = Msg ((ms @ [m]) ! i)"
        using full Msg by (auto simp add: nth_append less_Suc_eq)
      ultimately show ?thesis by blast
    next
      case SendFail
      with full show ?thesis
        by (intro disjI2 exI [of _ ms]) simp
    next
      case RecvFail
      with full show ?thesis
        by (intro disjI2 exI [of _ ms]) simp
    qed
  next
    case short
    then show ?thesis
      by (intro disjI2 exI [of _ ms]) simp
  qed
qed

lemma run_cases:
  obtains (complete) ms where "length ms = length (active_slots tbl)"
      and "\<forall>i<length ms. tr i = Msg (ms ! i)"
  | (abort) ms where "length ms < length (active_slots tbl)"
      and "\<forall>i<length ms. tr i = Msg (ms ! i)"
      and "tr (length ms) = SendFail \<or> tr (length ms) = RecvFail"
  using msg_prefix [of "length (active_slots tbl)" tr] by blast

lemma map_upt_msgs:
  assumes "\<forall>i<length ms. tr i = Msg (ms ! i)"
  shows "map tr [0..<length ms] = map Msg ms"
  using assms by (intro nth_equalityI) simp_all

lemma exit_code_abort:
  assumes "length ms < length (active_slots tbl)"
    and "\<forall>i<length ms. tr i = Msg (ms ! i)"
    and "tr (length ms) = SendFail \<or> tr (length ms) = RecvFail"
  shows "exit_code (main_on tr tbl) \<noteq> 0"
  using assms(3) main_on_abort [OF assms(1,2) refl assms(3)]
  by (auto simp add: exit_code_def)

text \<open>
  The report of a run, up to its end or its first failure.
\<close>

lemma report_of_run:
  assumes "length ms \<le> length (active_slots tbl)"
    and "\<forall>i<length ms. tr i = Msg (ms ! i)"
    and "length ms = length (active_slots tbl) \<or> tr (length ms) = SendFail \<or> tr (length ms) = RecvFail"
  shows "report_lines (main_on tr tbl) =
     map2 (\<lambda>s m. fprintf_line (commandname (tbl s))
        (calculate (tbl s) (byte_to_double (m 2)) (byte_to_double (m 3)))) (active_slots tbl) ms"
proof (cases "length ms = length (active_slots tbl)")
  case True
  then show ?thesis
    using assms(2)
    by (simp add: main_on_complete report_lines_def report_slot_events
        fprintf_of_prologue fprintf_of_epilogue)
next
  case False
  with assms have lt: "length ms < length (active_slots tbl)"
    and f: "tr (length ms) = SendFail \<or> tr (length ms) = RecvFail"
    by auto
  show ?thesis
    using main_on_abort [OF lt assms(2) refl f] assms(1)
    by (simp add: report_lines_def report_slot_events fprintf_of_prologue fprintf_of_fail)
qed

text \<open>
  \<^verbatim>\<open>fclose(out)\<close> is called once by a run that reaches the end of \<^verbatim>\<open>main\<close>, and not
  at all by a run that returns from inside the loop.
\<close>

lemma complete_closes_once:
  assumes "length ms = length (active_slots tbl)"
    and "\<forall>i<length ms. tr i = Msg (ms ! i)"
  shows "occurrences Fopen (main_on tr tbl) = 1 \<and> occurrences Fclose (main_on tr tbl) = 1"
  by (simp add: main_on_complete [OF assms] occurrences_def count_prologue count_epilogue
      count_slot_events)

lemma abort_never_closes:
  assumes "exit_code (main_on tr tbl) \<noteq> 0"
  shows "occurrences Fopen (main_on tr tbl) = 1 \<and> occurrences Fclose (main_on tr tbl) = 0"
proof (cases rule: run_cases [of tbl tr])
  case (complete ms)
  with assms show ?thesis
    by (simp add: main_on_complete exit_code_def)
next
  case (abort ms)
  show ?thesis
    by (simp add: main_on_abort [OF abort(1,2) refl abort(3)] occurrences_def count_prologue
        count_fail count_slot_events)
qed

section \<open>The end of the process\<close>











section \<open>The scenario of the specification\<close>

lemma active_slots_scenario: "active_slots scenario_table = [0, 1, 2]"
  by (simp add: active_slots_def active_from_def upt_25 scenario_table_def zeroed_def)

lemma scenario_table_0:
  "commandname (scenario_table 0) = ''Engine Coolant Temperature''"
  "calculate (scenario_table 0) = stdcalc" "command (scenario_table 0) = 0x05"
  by (simp_all add: scenario_table_def)

lemma scenario_table_1:
  "commandname (scenario_table 1) = ''Engine Speed''"
  "calculate (scenario_table 1) = rpmcalc" "command (scenario_table 1) = 0x0C"
  by (simp_all add: scenario_table_def)

lemma scenario_table_2:
  "commandname (scenario_table 2) = ''Vehicle Speed''"
  "calculate (scenario_table 2) = stdcalc" "command (scenario_table 2) = 0x0D"
  by (simp_all add: scenario_table_def)

lemma scenario_table_Suc_0: "command (scenario_table (Suc 0)) = 0x0C"
  by (simp add: scenario_table_def)

lemma reply_payload: "reply pid a b 2 = a" "reply pid a b 3 = b"
  by (simp_all add: reply_def)

lemma line_95: "fprintf_line ''Engine Coolant Temperature'' (stdcalc (byte_to_double 95) (byte_to_double 0))
   = ''Engine Coolant Temperature, 95.000000'' @ [CHR 0x0A]"
  by (simp add: stdcalc_def byte_to_double_def fmt_eval)

lemma line_1675: "fprintf_line ''Engine Speed'' (rpmcalc (byte_to_double 0x1A) (byte_to_double 0x2C))
   = ''Engine Speed, 1675.000000'' @ [CHR 0x0A]"
  by (simp add: rpmcalc_def byte_to_double_def fmt_eval)

lemma line_60: "fprintf_line ''Vehicle Speed'' (stdcalc (byte_to_double 60) (byte_to_double 0))
   = ''Vehicle Speed, 60.000000'' @ [CHR 0x0A]"
  by (simp add: stdcalc_def byte_to_double_def fmt_eval)

lemma main_on_scenario:
  "main_on scenario_transport scenario_table =
    (0, \<lparr>calls = 3,
         trace = prologue
           @ slot_events scenario_table [0, 1, 2]
               [reply 0x05 95 0, reply 0x0C 0x1A 0x2C, reply 0x0D 60 0]
           @ epilogue\<rparr>)"
proof -
  let ?ms = "[reply 0x05 95 0, reply 0x0C 0x1A 0x2C, reply 0x0D 60 0]"
  have len: "length ?ms = length (active_slots scenario_table)"
    by (simp add: active_slots_scenario)
  have all: "\<forall>i<length ?ms. scenario_transport i = Msg (?ms ! i)"
    by (auto simp add: scenario_transport_def less_Suc_eq numeral_3_eq_3 numeral_2_eq_2)
  show ?thesis
    using main_on_complete [OF len all] by (simp add: active_slots_scenario)
qed

lemma scenario_table_Suc_0':
  "commandname (scenario_table (Suc 0)) = ''Engine Speed''"
  "calculate (scenario_table (Suc 0)) = rpmcalc"
  by (simp_all add: scenario_table_def)

lemma upt_3: "[0..<3] = [0, 1, 2]"
  by code_simp

lemma scenario_msgs:
  assumes "length ms = 3"
    and "map scenario_transport [0..<length ms] = map Msg ms"
  shows "ms = [reply 0x05 95 0, reply 0x0C 0x1A 0x2C, reply 0x0D 60 0]"
proof -
  from assms(1) obtain a b c where ms: "ms = [a, b, c]"
    by (auto simp add: numeral_3_eq_3 length_Suc_conv)
  from assms(2) show ?thesis
    by (simp add: ms upt_3 scenario_transport_def)
qed

lemma fmt_95: "fmt_f (stdcalc 95 0) = ''95.000000''"
  by (simp add: stdcalc_def fmt_eval)

lemma fmt_1675: "fmt_f (rpmcalc 26 44) = ''1675.000000''"
  by (simp add: rpmcalc_def fmt_eval)

lemma fmt_60: "fmt_f (stdcalc 60 0) = ''60.000000''"
  by (simp add: stdcalc_def fmt_eval)



section \<open>The decoding functions on bytes\<close>

lemma rpmcalc_quarters:
  "\<exists>n::nat. n < 65536 \<and> rpmcalc (byte_to_double a) (byte_to_double b) = of_nat n / 4"
proof -
  have "unat a < 2 ^ LENGTH(8)" "unat b < 2 ^ LENGTH(8)"
    by (rule unsigned_less)+
  then have "unat a < 256" "unat b < 256" by simp_all
  then have "unat a * 256 + unat b < 65536" by arith
  moreover have "rpmcalc (byte_to_double a) (byte_to_double b) = of_nat (unat a * 256 + unat b) / 4"
    by (simp add: rpmcalc_def byte_to_double_def)
  ultimately show ?thesis by blast
qed

section \<open>The claims\<close>

text \<open>
  C1. When the transport fails on the \<open>k\<close>-th active entry (counted from 1) after answering
  the \<open>k - 1\<close> queries before it, the report holds exactly \<open>k - 1\<close> lines, those of the
  first \<open>k - 1\<close> active entries in the order of the table; exactly the first \<open>k\<close> active
  entries have been queried, each once, so nothing is queried after the failure and nothing is
  tried again; and \<^verbatim>\<open>main\<close> returns 1 for a failed send and 2 for a failed receive.
\<close>

theorem abort_prefix:
  assumes "1 \<le> k" and "k \<le> length (active_slots tbl)"
    and "length ms = k - 1"
    and "\<forall>i<k - 1. tr i = Msg (ms ! i)"
    and "tr (k - 1) = SendFail \<or> tr (k - 1) = RecvFail"
  shows "length (report_lines (main_on tr tbl)) = k - 1
    \<and> report_lines (main_on tr tbl) =
        map2 (\<lambda>s m. fprintf_line (commandname (tbl s))
               (calculate (tbl s) (byte_to_double (m 2)) (byte_to_double (m 3))))
          (take (k - 1) (active_slots tbl)) ms
    \<and> queried (main_on tr tbl) = map (\<lambda>s. command (tbl s)) (take k (active_slots tbl))
    \<and> exit_code (main_on tr tbl) = (if tr (k - 1) = SendFail then 1 else 2)
    \<and> exit_code (main_on tr tbl) \<noteq> 0"
proof -
  let ?f = "tr (k - 1)"
  have lt: "length ms < length (active_slots tbl)"
    using assms(1-3) by simp
  have all: "\<forall>i<length ms. tr i = Msg (ms ! i)"
    using assms(3,4) by simp
  have f: "tr (length ms) = ?f" "?f = SendFail \<or> ?f = RecvFail"
    using assms(3,5) by simp_all
  note run = main_on_abort [OF lt all f]
  have lines: "report_lines (main_on tr tbl) =
      map2 (\<lambda>s m. fprintf_line (commandname (tbl s))
             (calculate (tbl s) (byte_to_double (m 2)) (byte_to_double (m 3))))
        (active_slots tbl) ms"
    using lt by (simp add: run report_lines_def report_slot_events fprintf_of_prologue fprintf_of_fail)
  have zip: "zip (active_slots tbl) ms = zip (take (k - 1) (active_slots tbl)) ms"
    using assms(3) zip_take_length [of "active_slots tbl" ms] by simp
  have "length (report_lines (main_on tr tbl)) = k - 1"
    using lt assms(3) by (simp add: lines)
  moreover have "report_lines (main_on tr tbl) =
        map2 (\<lambda>s m. fprintf_line (commandname (tbl s))
               (calculate (tbl s) (byte_to_double (m 2)) (byte_to_double (m 3))))
          (take (k - 1) (active_slots tbl)) ms"
    by (simp add: lines zip)
  moreover have "queried (main_on tr tbl) = map (\<lambda>s. command (tbl s)) (take k (active_slots tbl))"
  proof -
    have k: "k = Suc (length ms)" using assms(1,3) by simp
    show ?thesis
      using lt f(2)
      by (simp add: run queried_def sends_slot_events send_of_prologue send_of_fail k
          take_Suc_conv_app_nth)
  qed
  moreover have "exit_code (main_on tr tbl) = (if ?f = SendFail then 1 else 2)"
    using f(2) by (auto simp add: run exit_code_def)
  ultimately show ?thesis by auto
qed

text \<open>
  The failure scenario of the specification: nothing is received for the second request.
\<close>

theorem abort_prefix_witness:
  "(1::nat) \<le> 2 \<and> 2 \<le> length (active_slots scenario_table)
   \<and> failing_transport 0 = Msg (reply 0x05 95 0) \<and> failing_transport 1 = RecvFail
   \<and> report_lines (main_on failing_transport scenario_table)
       = [''Engine Coolant Temperature, 95.000000'' @ [CHR 0x0A]]
   \<and> queried (main_on failing_transport scenario_table) = [0x05, 0x0C]
   \<and> exit_code (main_on failing_transport scenario_table) = 2"
proof -
  have h1: "(1::nat) \<le> 2" by simp
  have h2: "2 \<le> length (active_slots scenario_table)"
    by (simp add: active_slots_scenario)
  have t0: "failing_transport 0 = Msg (reply 0x05 95 0)"
    and t1: "failing_transport 1 = RecvFail"
    by (simp_all add: failing_transport_def)
  have h3: "length [reply 0x05 95 0] = 2 - 1" by simp
  have h4: "\<forall>i<2 - 1. failing_transport i = Msg ([reply 0x05 95 0] ! i)"
    using t0 by simp
  have h5: "failing_transport (2 - 1) = SendFail \<or> failing_transport (2 - 1) = RecvFail"
    using t1 by simp
  have "report_lines (main_on failing_transport scenario_table)
       = [''Engine Coolant Temperature, 95.000000'' @ [CHR 0x0A]]
   \<and> queried (main_on failing_transport scenario_table) = [0x05, 0x0C]
   \<and> exit_code (main_on failing_transport scenario_table) = 2"
    using abort_prefix [OF h1 h2 h3 h4 h5] t1
    by (simp add: active_slots_scenario scenario_table_0 scenario_table_Suc_0 reply_payload line_95)
  with h1 h2 t0 t1 show ?thesis by blast
qed

text \<open>
  C2. For a table whose active entries are Engine Coolant Temperature (\<open>stdcalc\<close>), Engine
  Speed (\<open>rpmcalc\<close>) and Vehicle Speed (\<open>stdcalc\<close>), and a transport that answers the three
  requests with the payload bytes \<open>(95, 0)\<close>, \<open>(0x1A, 0x2C)\<close> and \<open>(60, 0)\<close>, the sweep writes
  exactly the three lines \<open>Engine Coolant Temperature, 95.000000\<close>,
  \<open>Engine Speed, 1675.000000\<close> and \<open>Vehicle Speed, 60.000000\<close>, in this order, each ended by a
  newline.
\<close>

theorem scenario_report:
  assumes "active_slots tbl = [s1, s2, s3]"
    and "commandname (tbl s1) = ''Engine Coolant Temperature''" and "calculate (tbl s1) = stdcalc"
    and "commandname (tbl s2) = ''Engine Speed''" and "calculate (tbl s2) = rpmcalc"
    and "commandname (tbl s3) = ''Vehicle Speed''" and "calculate (tbl s3) = stdcalc"
    and "tr 0 = Msg m1" and "m1 2 = 95" and "m1 3 = 0"
    and "tr 1 = Msg m2" and "m2 2 = 0x1A" and "m2 3 = 0x2C"
    and "tr 2 = Msg m3" and "m3 2 = 60" and "m3 3 = 0"
  shows "report_lines (main_on tr tbl) =
      [''Engine Coolant Temperature, 95.000000'' @ [CHR 0x0A],
       ''Engine Speed, 1675.000000'' @ [CHR 0x0A],
       ''Vehicle Speed, 60.000000'' @ [CHR 0x0A]]
    \<and> file_contents (main_on tr tbl) =
       ''Engine Coolant Temperature, 95.000000'' @ [CHR 0x0A]
       @ ''Engine Speed, 1675.000000'' @ [CHR 0x0A]
       @ ''Vehicle Speed, 60.000000'' @ [CHR 0x0A]
    \<and> exit_code (main_on tr tbl) = 0"
proof -
  have len: "length [m1, m2, m3] = length (active_slots tbl)"
    using assms(1) by simp
  have all: "\<forall>i<length [m1, m2, m3]. tr i = Msg ([m1, m2, m3] ! i)"
    using assms(8,11,14) by (auto simp add: less_Suc_eq numeral_3_eq_3 numeral_2_eq_2)
  note run = main_on_complete [OF len all]
  have "report_lines (main_on tr tbl) =
      map2 (\<lambda>s m. fprintf_line (commandname (tbl s))
        (calculate (tbl s) (byte_to_double (m 2)) (byte_to_double (m 3))))
        (active_slots tbl) [m1, m2, m3]"
    using len
    by (simp add: run report_lines_def report_slot_events fprintf_of_prologue fprintf_of_epilogue)
  then have lines: "report_lines (main_on tr tbl) =
      [''Engine Coolant Temperature, 95.000000'' @ [CHR 0x0A],
       ''Engine Speed, 1675.000000'' @ [CHR 0x0A],
       ''Vehicle Speed, 60.000000'' @ [CHR 0x0A]]"
    using assms line_95 line_1675 line_60 by simp
  moreover have "exit_code (main_on tr tbl) = 0"
    by (simp add: run exit_code_def)
  ultimately show ?thesis
    by (simp add: file_contents_def)
qed

theorem scenario_report_witness:
  "active_slots scenario_table = [0, 1, 2]
   \<and> scenario_transport 0 = Msg (reply 0x05 95 0)
   \<and> scenario_transport 1 = Msg (reply 0x0C 0x1A 0x2C)
   \<and> scenario_transport 2 = Msg (reply 0x0D 60 0)
   \<and> file_contents (main_on scenario_transport scenario_table) =
       ''Engine Coolant Temperature, 95.000000'' @ [CHR 0x0A]
       @ ''Engine Speed, 1675.000000'' @ [CHR 0x0A]
       @ ''Vehicle Speed, 60.000000'' @ [CHR 0x0A]"
proof -
  have t: "scenario_transport 0 = Msg (reply 0x05 95 0)"
    "scenario_transport 1 = Msg (reply 0x0C 0x1A 0x2C)"
    "scenario_transport 2 = Msg (reply 0x0D 60 0)"
    by (simp_all add: scenario_transport_def)
  from scenario_report [OF active_slots_scenario scenario_table_0(1,2) scenario_table_1(1,2)
      scenario_table_2(1,2) t(1) reply_payload t(2) reply_payload t(3) reply_payload]
  show ?thesis
    using active_slots_scenario t by blast
qed



text \<open>
  C4. In every run, every line of the report is the name of an active entry, in the order of
  the table, followed by the value that the entry's \<open>calculate\<close> gives for the bytes at the
  offsets 2 and 3 of the message received for it, read as unsigned numbers and in this order;
  the width \<open>bytes\<close> of the entry plays no part. The messages \<open>ms\<close> are those of the queries answered before the run
  ended or failed.
\<close>

theorem decode_offsets:
  "\<exists>ms. length ms \<le> length (active_slots tbl)
     \<and> map tr [0..<length ms] = map Msg ms
     \<and> (length ms = length (active_slots tbl)
         \<or> tr (length ms) = SendFail \<or> tr (length ms) = RecvFail)
     \<and> report_lines (main_on tr tbl) =
         map2 (\<lambda>s m. commandname (tbl s) @ '', ''
                @ fmt_f (calculate (tbl s) (of_nat (unat (m 2))) (of_nat (unat (m 3))))
                @ [CHR 0x0A])
           (active_slots tbl) ms"
proof (cases rule: run_cases [of tbl tr])
  case (complete ms)
  then have "report_lines (main_on tr tbl) =
         map2 (\<lambda>s m. fprintf_line (commandname (tbl s))
                (calculate (tbl s) (byte_to_double (m 2)) (byte_to_double (m 3))))
           (active_slots tbl) ms"
    by (intro report_of_run) simp_all
  with complete map_upt_msgs [OF complete(2)] show ?thesis
    by (intro exI [of _ ms]) (simp add: fprintf_line_def byte_to_double_def)
next
  case (abort ms)
  then have "report_lines (main_on tr tbl) =
         map2 (\<lambda>s m. fprintf_line (commandname (tbl s))
                (calculate (tbl s) (byte_to_double (m 2)) (byte_to_double (m 3))))
           (active_slots tbl) ms"
    by (intro report_of_run) simp_all
  with abort map_upt_msgs [OF abort(2)] show ?thesis
    by (intro exI [of _ ms]) (simp add: fprintf_line_def byte_to_double_def)
qed

text \<open>
  In the scenario the message for Engine Speed holds \<open>0x41, 0x0C, 0x1A, 0x2C\<close> at the offsets
  0 to 3; the line written is that of \<open>rpmcalc 0x1A 0x2C\<close>.
\<close>

theorem decode_offsets_witness:
  "scenario_transport 0 = Msg (reply 0x05 95 0)
   \<and> scenario_transport 1 = Msg (reply 0x0C 0x1A 0x2C)
   \<and> scenario_transport 2 = Msg (reply 0x0D 60 0)
   \<and> reply 0x0C 0x1A 0x2C 0 = 0x41 \<and> reply 0x0C 0x1A 0x2C 1 = 0x0C
   \<and> reply 0x0C 0x1A 0x2C 2 = 0x1A \<and> reply 0x0C 0x1A 0x2C 3 = 0x2C
   \<and> report_lines (main_on scenario_transport scenario_table) =
       [''Engine Coolant Temperature, 95.000000'' @ [CHR 0x0A],
        ''Engine Speed, 1675.000000'' @ [CHR 0x0A],
        ''Vehicle Speed, 60.000000'' @ [CHR 0x0A]]"
proof -
  have t: "scenario_transport 0 = Msg (reply 0x05 95 0)"
    "scenario_transport 1 = Msg (reply 0x0C 0x1A 0x2C)"
    "scenario_transport 2 = Msg (reply 0x0D 60 0)"
    by (simp_all add: scenario_transport_def)
  have r: "reply 0x0C 0x1A 0x2C 0 = 0x41" "reply 0x0C 0x1A 0x2C 1 = 0x0C"
    "reply 0x0C 0x1A 0x2C 2 = 0x1A" "reply 0x0C 0x1A 0x2C 3 = 0x2C"
    by (simp_all add: reply_def)
  from decode_offsets [of scenario_table scenario_transport] obtain ms where
    len: "length ms \<le> length (active_slots scenario_table)"
    and pre: "map scenario_transport [0..<length ms] = map Msg ms"
    and fin: "length ms = length (active_slots scenario_table)
         \<or> scenario_transport (length ms) = SendFail
         \<or> scenario_transport (length ms) = RecvFail"
    and rep: "report_lines (main_on scenario_transport scenario_table) =
         map2 (\<lambda>s m. commandname (scenario_table s) @ '', ''
                @ fmt_f (calculate (scenario_table s) (of_nat (unat (m 2))) (of_nat (unat (m 3))))
                @ [CHR 0x0A])
           (active_slots scenario_table) ms"
    by blast
  have "length ms \<noteq> 0" "length ms \<noteq> 1" "length ms \<noteq> 2"
    using fin t by (auto simp add: active_slots_scenario)
  moreover from len have "length ms \<le> 3"
    by (simp add: active_slots_scenario)
  ultimately have "length ms = 3"
    by arith
  then have ms: "ms = [reply 0x05 95 0, reply 0x0C 0x1A 0x2C, reply 0x0D 60 0]"
    using pre by (rule scenario_msgs)
  have "report_lines (main_on scenario_transport scenario_table) =
       [''Engine Coolant Temperature, 95.000000'' @ [CHR 0x0A],
        ''Engine Speed, 1675.000000'' @ [CHR 0x0A],
        ''Vehicle Speed, 60.000000'' @ [CHR 0x0A]]"
    using rep
    by (simp add: ms active_slots_scenario scenario_table_0 scenario_table_1 scenario_table_2
        scenario_table_Suc_0 scenario_table_Suc_0' reply_payload fmt_95 fmt_1675 fmt_60)
  with t r show ?thesis by blast
qed

text \<open>
  C5, as amended. After the defaults and \<^verbatim>\<open>setupcommands\<close>, exactly 7 slots are active,
  whatever the array held before: the slots 3, 4, 5, 10, 11, 12 and 13, with the names fuel
  system status, calculated engine load, engine coolant temperature, fuel gauge pressure,
  intake manifold absolute pressure, engine speed and vehicle speed.
\<close>

theorem active_count:
  "active_slots (build junk) = [3, 4, 5, 10, 11, 12, 13]
   \<and> length (active_slots (build junk)) = 7
   \<and> map (\<lambda>s. commandname (build junk s)) (active_slots (build junk)) =
     [''Fuel System Status'', ''Calculated Engine Load'', ''Engine Coolant Temperature'',
      ''Fuel Gauge Pressure'', ''Intake Manifold Absolute Pressure'', ''Engine Speed'',
      ''Vehicle Speed'']"
  by (simp add: active_slots_build build_names build_12)

text \<open>
  C5 as stated, that exactly 8 slots are active, fails.
\<close>

theorem active_count_counterexample:
  "length (active_slots (build zeroed)) \<noteq> 8"
  by (simp add: active_slots_build)

text \<open>
  C6. In a run in which \<^verbatim>\<open>main\<close> reaches its end (it returns 0), the requests sent are
  those of the slots with \<open>0 < bytes\<close>, one each, in ascending order of the slots, and the
  report has one line for each of them in the same order: the name of the entry, a comma and
  a blank, the value decoded from the message received for it, and a newline; a slot with
  \<open>bytes = 0\<close> is not queried and gives no line.
\<close>

theorem complete_sweep_active_only:
  assumes "exit_code (main_on tr tbl) = 0"
  shows "queried (main_on tr tbl) = map (\<lambda>s. command (tbl s)) (active_slots tbl)
    \<and> length (report_lines (main_on tr tbl)) = length (active_slots tbl)
    \<and> (\<exists>ms. length ms = length (active_slots tbl)
          \<and> map tr [0..<length ms] = map Msg ms
          \<and> report_lines (main_on tr tbl) =
              map2 (\<lambda>s m. commandname (tbl s) @ '', ''
                     @ fmt_f (calculate (tbl s) (of_nat (unat (m 2))) (of_nat (unat (m 3))))
                     @ [CHR 0x0A])
                (active_slots tbl) ms)
    \<and> set (active_slots tbl) = {j. j < 25 \<and> 0 < bytes (tbl j)}
    \<and> sorted_wrt (<) (active_slots tbl)"
proof (cases rule: run_cases [of tbl tr])
  case (abort ms)
  then have "exit_code (main_on tr tbl) \<noteq> 0"
    by (rule exit_code_abort)
  with assms show ?thesis by simp
next
  case (complete ms)
  note run = main_on_complete [OF complete]
  have "queried (main_on tr tbl) = map (\<lambda>s. command (tbl s)) (active_slots tbl)"
    using complete(1)
    by (simp add: run queried_def sends_slot_events send_of_prologue send_of_epilogue)
  moreover have "report_lines (main_on tr tbl) =
        map2 (\<lambda>s m. fprintf_line (commandname (tbl s))
               (calculate (tbl s) (byte_to_double (m 2)) (byte_to_double (m 3))))
          (active_slots tbl) ms"
    using complete by (intro report_of_run) simp_all
  then have lines: "report_lines (main_on tr tbl) =
        map2 (\<lambda>s m. commandname (tbl s) @ '', ''
               @ fmt_f (calculate (tbl s) (of_nat (unat (m 2))) (of_nat (unat (m 3))))
               @ [CHR 0x0A])
          (active_slots tbl) ms"
    by (simp add: fprintf_line_def byte_to_double_def)
  moreover have "length (report_lines (main_on tr tbl)) = length (active_slots tbl)"
    using complete(1) by (simp add: lines)
  moreover have "map tr [0..<length ms] = map Msg ms"
    using complete(2) by (rule map_upt_msgs)
  moreover have "set (active_slots tbl) = {j. j < 25 \<and> 0 < bytes (tbl j)}"
    by (auto simp add: active_slots_def active_from_def)
  moreover have "sorted_wrt (<) (active_slots tbl)"
    by (simp add: active_slots_def active_from_sorted)
  ultimately show ?thesis
    using complete(1) by blast
qed

theorem complete_sweep_active_only_witness:
  "exit_code (main_on scenario_transport scenario_table) = 0
   \<and> active_slots scenario_table = [0, 1, 2]
   \<and> queried (main_on scenario_transport scenario_table) = [0x05, 0x0C, 0x0D]
   \<and> report_lines (main_on scenario_transport scenario_table) =
       [''Engine Coolant Temperature, 95.000000'' @ [CHR 0x0A],
        ''Engine Speed, 1675.000000'' @ [CHR 0x0A],
        ''Vehicle Speed, 60.000000'' @ [CHR 0x0A]]
   \<and> file_contents (main_on scenario_transport scenario_table) =
       ''Engine Coolant Temperature, 95.000000'' @ [CHR 0x0A]
       @ ''Engine Speed, 1675.000000'' @ [CHR 0x0A]
       @ ''Vehicle Speed, 60.000000'' @ [CHR 0x0A]"
proof -
  have ex: "exit_code (main_on scenario_transport scenario_table) = 0"
    by (simp add: main_on_scenario exit_code_def)
  note c6 = complete_sweep_active_only [OF ex]
  have q: "queried (main_on scenario_transport scenario_table) = [0x05, 0x0C, 0x0D]"
    using c6
    by (simp add: active_slots_scenario scenario_table_0 scenario_table_1 scenario_table_2
        scenario_table_Suc_0)
  from c6 obtain ms where len: "length ms = length (active_slots scenario_table)"
    and pre: "map scenario_transport [0..<length ms] = map Msg ms"
    and rep: "report_lines (main_on scenario_transport scenario_table) =
         map2 (\<lambda>s m. commandname (scenario_table s) @ '', ''
                @ fmt_f (calculate (scenario_table s) (of_nat (unat (m 2))) (of_nat (unat (m 3))))
                @ [CHR 0x0A])
           (active_slots scenario_table) ms"
    by blast
  from len have "length ms = 3"
    by (simp add: active_slots_scenario)
  then have ms: "ms = [reply 0x05 95 0, reply 0x0C 0x1A 0x2C, reply 0x0D 60 0]"
    using pre by (rule scenario_msgs)
  have lines: "report_lines (main_on scenario_transport scenario_table) =
       [''Engine Coolant Temperature, 95.000000'' @ [CHR 0x0A],
        ''Engine Speed, 1675.000000'' @ [CHR 0x0A],
        ''Vehicle Speed, 60.000000'' @ [CHR 0x0A]]"
    using rep
    by (simp add: ms active_slots_scenario scenario_table_0 scenario_table_1 scenario_table_2
        scenario_table_Suc_0 scenario_table_Suc_0' reply_payload fmt_95 fmt_1675 fmt_60)
  then have "file_contents (main_on scenario_transport scenario_table) =
       ''Engine Coolant Temperature, 95.000000'' @ [CHR 0x0A]
       @ ''Engine Speed, 1675.000000'' @ [CHR 0x0A]
       @ ''Vehicle Speed, 60.000000'' @ [CHR 0x0A]"
    by (simp add: file_contents_def)
  with ex q lines active_slots_scenario show ?thesis by blast
qed

text \<open>
  C7. \<open>stdcalc\<close> returns its first argument, whatever the second is; every slot of the table
  that \<^verbatim>\<open>main\<close> builds, except slot 12 (Engine Speed), holds \<open>stdcalc\<close>, so the value decoded
  for such a slot is the first payload byte.
\<close>

theorem identity_rule:
  "stdcalc a b = a \<and> stdcalc 100 b = 100
   \<and> (\<forall>j<25. j \<noteq> 12 \<longrightarrow>
         calculate (build junk j) = stdcalc
         \<and> calculate (build junk j) (byte_to_double x) (byte_to_double y) = byte_to_double x)"
  by (simp add: calculate_build stdcalc_def)

theorem identity_rule_witness:
  "(5::nat) < 25 \<and> (5::nat) \<noteq> 12 \<and> calculate (build zeroed 5) = stdcalc
   \<and> calculate (build zeroed 5) (byte_to_double 100) (byte_to_double 7) = 100"
proof -
  from identity_rule [of 0 0 zeroed 100 7]
  have "\<forall>j<25. j \<noteq> 12 \<longrightarrow>
         calculate (build zeroed j) = stdcalc
         \<and> calculate (build zeroed j) (byte_to_double 100) (byte_to_double 7) = byte_to_double 100"
    by blast
  then have "(5::nat) < 25 \<longrightarrow> (5::nat) \<noteq> 12 \<longrightarrow>
         calculate (build zeroed 5) = stdcalc
         \<and> calculate (build zeroed 5) (byte_to_double 100) (byte_to_double 7) = byte_to_double 100"
    by blast
  then show ?thesis
    by (auto simp add: byte_to_double_def stdcalc_def)
qed

text \<open>
  C8. The engine-speed decoding of two bytes \<open>a\<close>, \<open>b\<close> is \<open>((a * 256) + b) / 4\<close>, and the
  bytes \<open>0x1A\<close>, \<open>0x2C\<close> decode to \<open>1675\<close>.
\<close>

theorem rpmcalc_formula:
  "rpmcalc (byte_to_double a) (byte_to_double b)
     = ((of_nat (unat a) * 256) + of_nat (unat b)) / 4
   \<and> rpmcalc (byte_to_double 0x1A) (byte_to_double 0x2C) = 1675"
  by (simp add: rpmcalc_def byte_to_double_def)

text \<open>
  C9. \<^verbatim>\<open>setupcommands\<close> applied any number of times (at least once) to a table gives the
  table that one application gives; in particular it leaves the table of \<^verbatim>\<open>main\<close> as it
  is.
\<close>

theorem build_idempotent:
  "(setupcommands ^^ Suc n) tbl = setupcommands tbl
   \<and> setupcommands (build junk) = build junk"
proof -
  have idem: "setupcommands (setupcommands t) = setupcommands t" for t
    by (simp add: setupcommands_def Let_def fun_eq_iff)
  have "(setupcommands ^^ Suc n) tbl = setupcommands tbl"
    by (induction n) (simp_all add: idem)
  then show ?thesis
    by (simp add: build_def idem)
qed

text \<open>
  C10. For all bytes \<open>a\<close>, \<open>b\<close> the engine-speed decoding lies between the \<open>min\<close> and the
  \<open>max\<close> that the table declares for Engine Speed, which are 0 and 16383.75.
\<close>

theorem rpm_within_range:
  "min_val (build junk 12) \<le> rpmcalc (byte_to_double a) (byte_to_double b)
   \<and> rpmcalc (byte_to_double a) (byte_to_double b) \<le> max_val (build junk 12)
   \<and> min_val (build junk 12) = 0 \<and> max_val (build junk 12) = 16383.75
   \<and> commandname (build junk 12) = ''Engine Speed''"
proof -
  obtain n :: nat where n: "n < 65536"
    and r: "rpmcalc (byte_to_double a) (byte_to_double b) = of_nat n / 4"
    using rpmcalc_quarters by blast
  from n have "n \<le> 65535" by simp
  then have "(of_nat n :: rat) \<le> of_nat 65535"
    by (simp only: of_nat_le_iff)
  then have "(of_nat n :: rat) \<le> 65535" by simp
  then show ?thesis
    by (simp add: r build_12)
qed

end
